theory Spec2Isabelle
  imports Complex_Main "HOL-Library.Sublist"
begin

section \<open>SeismoScope: the feed loader and the row selection of app.py\<close>

text \<open>
  The dashboard of \<^verbatim>\<open>app.py\<close> has two pieces of logic: \<^verbatim>\<open>load_data\<close>, which
  fetches the feed and turns its features into the rows of a data frame, and the boolean
  selection in \<^verbatim>\<open>main\<close> that keeps the rows inside the chosen magnitude and time
  ranges. Both are embedded below. A Python float is represented by the real number it
  denotes (the selection only compares floats, and comparison is exact; infinities are not
  represented); a missing value (\<^verbatim>\<open>None\<close>, \<^verbatim>\<open>NaN\<close>, \<^verbatim>\<open>NaT\<close>) is explicit.
\<close>

subsection \<open>Values and exceptions\<close>

text \<open>The exceptions the code can meet. All of them derive from \<^verbatim>\<open>Exception\<close>.\<close>

datatype py_error =
    ConnectionError
  | Timeout
  | HTTPError
  | JSONDecodeError
  | KeyError
  | IndexError
  | TypeError
  | ValueError
  | OutOfBoundsDatetime

text \<open>
  What \<^verbatim>\<open>r.json()\<close> returns: Python objects decoded from JSON. A decoded object has
  distinct keys; it is kept as an association list and looked up with \<open>map_of\<close>.
\<close>

datatype json =
    JNull
  | JBool bool
  | JInt int
  | JFloat real
  | JStr string
  | JArr "json list"
  | JObj "(string \<times> json) list"

text \<open>
  A pandas timestamp, as the instant it denotes: the number of nanoseconds since the
  epoch, or \<open>None\<close> for \<^verbatim>\<open>NaT\<close>.
\<close>

type_synonym timestamp = "int option"

text \<open>Sequencing of computations that may raise: the first exception propagates.\<close>

definition and_then :: "py_error + 'a \<Rightarrow> ('a \<Rightarrow> py_error + 'b) \<Rightarrow> py_error + 'b" where
  "and_then m f = (case m of Inl e \<Rightarrow> Inl e | Inr x \<Rightarrow> f x)"

text \<open>Python subscription \<^verbatim>\<open>x["key"]\<close> with a string key.\<close>

fun getitem_key :: "json \<Rightarrow> string \<Rightarrow> py_error + json" where
  "getitem_key (JObj kvs) k = (case map_of kvs k of None \<Rightarrow> Inl KeyError | Some v \<Rightarrow> Inr v)"
| "getitem_key _ k = Inl TypeError"

text \<open>
  Python subscription \<^verbatim>\<open>x[i]\<close> with one of the non-negative constant indices the loader
  uses. A list raises \<^verbatim>\<open>IndexError\<close> out of range; a string yields the one-character
  string; a decoded object has string keys only, so an integer key is a \<^verbatim>\<open>KeyError\<close>.
\<close>

fun getitem_index :: "json \<Rightarrow> nat \<Rightarrow> py_error + json" where
  "getitem_index (JArr xs) i = (if i < length xs then Inr (xs ! i) else Inl IndexError)"
| "getitem_index (JStr s) i = (if i < length s then Inr (JStr [s ! i]) else Inl IndexError)"
| "getitem_index (JObj kvs) i = Inl KeyError"
| "getitem_index _ i = Inl TypeError"

text \<open>
  What a \<^verbatim>\<open>for\<close> clause iterates over: the elements of a list, the keys of a dict,
  the characters of a string; anything else is not iterable.
\<close>

fun py_iter :: "json \<Rightarrow> py_error + json list" where
  "py_iter (JArr xs) = Inr xs"
| "py_iter (JObj kvs) = Inr (map (\<lambda>kv. JStr (fst kv)) kvs)"
| "py_iter (JStr s) = Inr (map (\<lambda>c. JStr [c]) s)"
| "py_iter _ = Inl TypeError"

subsection \<open>The feed loader\<close>

text \<open>
  The outcome of \<^verbatim>\<open>requests.get(url, timeout=10)\<close>: the call raises (no connection, a
  timeout), or returns a response with a status code and a body. \<open>body_json\<close> is what
  \<^verbatim>\<open>r.json()\<close> decodes, \<open>None\<close> when the body is not JSON (\<^verbatim>\<open>JSONDecodeError\<close>).
\<close>

record response =
  status_code :: nat
  body_json :: "json option"

datatype http_outcome = RequestRaised py_error | Responded response

text \<open>\<^verbatim>\<open>r.raise_for_status()\<close> of requests: statuses 400 to 599 raise \<^verbatim>\<open>HTTPError\<close>.\<close>

definition raise_for_status :: "response \<Rightarrow> py_error + unit" where
  "raise_for_status r =
     (if 400 \<le> status_code r \<and> status_code r < 600 then Inl HTTPError else Inr ())"

text \<open>One entry of \<^verbatim>\<open>records\<close>: the dict built for a feature, a row of the frame.\<close>

record row =
  place :: json
  mag :: json
  time :: timestamp
  longitude :: json
  latitude :: json
  depth :: json

text \<open>
  The dict display of the comprehension, evaluated in source order. \<open>to_datetime\<close> is the
  library call \<^verbatim>\<open>pd.to_datetime(_, unit="ms")\<close>; the loader is modelled for any such
  conversion.
\<close>

definition record_of :: "(json \<Rightarrow> py_error + timestamp) \<Rightarrow> json \<Rightarrow> py_error + row" where
  "record_of to_datetime feature =
     and_then (and_then (getitem_key feature ''properties'') (\<lambda>p. getitem_key p ''place'')) (\<lambda>v_place.
     and_then (and_then (getitem_key feature ''properties'') (\<lambda>p. getitem_key p ''mag'')) (\<lambda>v_mag.
     and_then (and_then (and_then (getitem_key feature ''properties'') (\<lambda>p. getitem_key p ''time''))
                 to_datetime) (\<lambda>v_time.
     and_then (and_then (and_then (getitem_key feature ''geometry'') (\<lambda>g. getitem_key g ''coordinates''))
                 (\<lambda>c. getitem_index c 0)) (\<lambda>v_longitude.
     and_then (and_then (and_then (getitem_key feature ''geometry'') (\<lambda>g. getitem_key g ''coordinates''))
                 (\<lambda>c. getitem_index c 1)) (\<lambda>v_latitude.
     and_then (and_then (and_then (getitem_key feature ''geometry'') (\<lambda>g. getitem_key g ''coordinates''))
                 (\<lambda>c. getitem_index c 2)) (\<lambda>v_depth.
     Inr \<lparr>place = v_place, mag = v_mag, time = v_time, longitude = v_longitude,
          latitude = v_latitude, depth = v_depth\<rparr>))))))"

text \<open>
  A comprehension or an elementwise operation whose element computation may raise: the
  elements are visited in order and the first exception ends the whole evaluation.
\<close>

fun map_raising :: "('a \<Rightarrow> py_error + 'b) \<Rightarrow> 'a list \<Rightarrow> py_error + 'b list" where
  "map_raising f [] = Inr []"
| "map_raising f (x # xs) =
     and_then (f x) (\<lambda>y. and_then (map_raising f xs) (\<lambda>ys. Inr (y # ys)))"

text \<open>The list comprehension that builds \<^verbatim>\<open>records\<close>.\<close>

definition records_of :: "(json \<Rightarrow> py_error + timestamp) \<Rightarrow> json list \<Rightarrow> py_error + row list" where
  "records_of to_datetime features = map_raising (record_of to_datetime) features"

text \<open>
  The body of the \<^verbatim>\<open>try\<close>. A data frame is the list of its rows; \<^verbatim>\<open>pd.DataFrame()\<close>
  is the empty list.
\<close>

definition load_data_try ::
  "(json \<Rightarrow> py_error + timestamp) \<Rightarrow> http_outcome \<Rightarrow> py_error + row list" where
  "load_data_try to_datetime outcome =
     (case outcome of
        RequestRaised e \<Rightarrow> Inl e
      | Responded r \<Rightarrow>
          and_then (raise_for_status r) (\<lambda>_.
          and_then (case body_json r of None \<Rightarrow> Inl JSONDecodeError | Some d \<Rightarrow> Inr d) (\<lambda>data.
          and_then (and_then (getitem_key data ''features'') py_iter) (\<lambda>features.
          records_of to_datetime features))))"

text \<open>
  \<^verbatim>\<open>load_data\<close>: the \<^verbatim>\<open>except Exception\<close> clause shows the advisory with
  \<^verbatim>\<open>st.error\<close> and returns the empty frame. The result pairs the advisory shown (the
  exception it reports, if any) with the frame returned.
\<close>

definition load_data ::
  "(json \<Rightarrow> py_error + timestamp) \<Rightarrow> http_outcome \<Rightarrow> py_error option \<times> row list" where
  "load_data to_datetime outcome =
     (case load_data_try to_datetime outcome of
        Inr df \<Rightarrow> (None, df)
      | Inl e \<Rightarrow> (Some e, []))"

subsection \<open>A conversion for the sample feeds\<close>

text \<open>
  \<^verbatim>\<open>pd.to_datetime\<close> is not code of the program, and the loader above takes it as a
  parameter. The sample feeds below need a conversion to run with; \<open>to_datetime_feed\<close>
  stands in for the library there. It gives what pandas gives on the values the feed's
  \<^verbatim>\<open>time\<close> field holds: an integer of epoch milliseconds that fits a nanosecond timestamp
  becomes that instant, and null becomes \<^verbatim>\<open>NaT\<close>. Every other argument is outside what
  is modelled (there the result depends on the version of pandas); the stand-in answers
  \<^verbatim>\<open>ValueError\<close> there, no sample reaches that branch, and no general result mentions
  \<open>to_datetime_feed\<close>.
\<close>

fun to_datetime_feed :: "json \<Rightarrow> py_error + timestamp" where
  "to_datetime_feed (JInt t) =
     (if - 9223372036854 \<le> t \<and> t \<le> 9223372036854 then Inr (Some (t * 1000000))
      else Inl ValueError)"
| "to_datetime_feed JNull = Inr None"
| "to_datetime_feed _ = Inl ValueError"

subsection \<open>The row selection of main\<close>

text \<open>
  \<^verbatim>\<open>df["mag"] >= min_mag\<close> and \<^verbatim>\<open>df["mag"] <= max_mag\<close> on one cell. The column
  holds what the feed held: a number compares by value, a missing value (\<^verbatim>\<open>None\<close>,
  stored as \<^verbatim>\<open>NaN\<close>) compares false, a boolean compares as 0 or 1, and text, lists
  and dicts do not compare with a float (\<^verbatim>\<open>TypeError\<close>). pandas compares a numeric
  column with the float bound in 64-bit floating point, so comparing an integer by its
  value is what the code computes for the integers a float represents exactly, those of
  absolute value at most \<open>2\<^sup>5\<^sup>3\<close>; a larger integer is rounded first, which these
  two functions do not follow. The results that depend on the exact value of a magnitude
  are stated for frames within that range (\<open>float_or_null\<close> below).
\<close>

fun cell_ge :: "json \<Rightarrow> real \<Rightarrow> py_error + bool" where
  "cell_ge JNull b = Inr False"
| "cell_ge (JInt i) b = Inr (b \<le> of_int i)"
| "cell_ge (JFloat x) b = Inr (b \<le> x)"
| "cell_ge (JBool t) b = Inr (b \<le> (if t then 1 else 0))"
| "cell_ge _ b = Inl TypeError"

fun cell_le :: "json \<Rightarrow> real \<Rightarrow> py_error + bool" where
  "cell_le JNull b = Inr False"
| "cell_le (JInt i) b = Inr (of_int i \<le> b)"
| "cell_le (JFloat x) b = Inr (x \<le> b)"
| "cell_le (JBool t) b = Inr ((if t then 1 else 0) \<le> b)"
| "cell_le _ b = Inl TypeError"

text \<open>The same on the \<^verbatim>\<open>time\<close> column: \<^verbatim>\<open>NaT\<close> compares false.\<close>

definition time_ge :: "timestamp \<Rightarrow> int \<Rightarrow> bool" where
  "time_ge t b = (case t of None \<Rightarrow> False | Some n \<Rightarrow> b \<le> n)"

definition time_le :: "timestamp \<Rightarrow> int \<Rightarrow> bool" where
  "time_le t b = (case t of None \<Rightarrow> False | Some n \<Rightarrow> n \<le> b)"

text \<open>The elementwise \<^verbatim>\<open>&\<close> of two boolean masks, and \<^verbatim>\<open>df[mask]\<close>.\<close>

definition mask_and :: "bool list \<Rightarrow> bool list \<Rightarrow> bool list" where
  "mask_and m1 m2 = map (\<lambda>ab. fst ab \<and> snd ab) (zip m1 m2)"

definition bool_index :: "'a list \<Rightarrow> bool list \<Rightarrow> 'a list" where
  "bool_index df keep = map fst (filter snd (zip df keep))"

text \<open>
  \<^verbatim>\<open>filtered_df\<close>, lines 66 to 71. The bounds are the slider values and the
  timestamps \<^verbatim>\<open>pd.to_datetime(start_datetime)\<close>, \<^verbatim>\<open>pd.to_datetime(end_datetime)\<close>,
  in nanoseconds. \<^verbatim>\<open>main\<close> evaluates the selection only when \<^verbatim>\<open>df.empty\<close> is
  false; a selection keeps the columns, so it can be applied to its own result.
\<close>

definition filtered_df ::
  "row list \<Rightarrow> real \<Rightarrow> real \<Rightarrow> int \<Rightarrow> int \<Rightarrow> py_error + row list" where
  "filtered_df df min_mag max_mag start_datetime end_datetime =
     and_then (map_raising (\<lambda>c. cell_ge c min_mag) (map mag df)) (\<lambda>m1.
     and_then (map_raising (\<lambda>c. cell_le c max_mag) (map mag df)) (\<lambda>m2.
     Inr (bool_index df
       (mask_and
         (mask_and (mask_and m1 m2) (map (\<lambda>t. time_ge t start_datetime) (map time df)))
         (map (\<lambda>t. time_le t end_datetime) (map time df))))))"

text \<open>
  The rows of the specification's data model: the magnitude is a number or missing.
  \<open>mag_value\<close> reads the number.
\<close>

fun number_or_null :: "json \<Rightarrow> bool" where
  "number_or_null JNull = True"
| "number_or_null (JInt i) = True"
| "number_or_null (JFloat x) = True"
| "number_or_null _ = False"

text \<open>
  A magnitude that is a floating-point value or missing: a float, an integer that a float
  represents exactly, or null. On these the code's floating-point comparison is the
  comparison of values.
\<close>

fun float_or_null :: "json \<Rightarrow> bool" where
  "float_or_null JNull = True"
| "float_or_null (JInt i) = (\<bar>i\<bar> \<le> 9007199254740992)"
| "float_or_null (JFloat x) = True"
| "float_or_null _ = False"

fun mag_value :: "json \<Rightarrow> real option" where
  "mag_value (JInt i) = Some (of_int i)"
| "mag_value (JFloat x) = Some x"
| "mag_value _ = None"

subsection \<open>The magnitude sliders\<close>

text \<open>
  \<^verbatim>\<open>st.sidebar.slider(label, min_value, max_value, value, step=step)\<close> returns a
  position of the slider: a float between \<open>min_value\<close> and \<open>max_value\<close>. The initial
  position and the step decide which positions of that range can be reached, not the
  range. \<open>slider min_value max_value initial step v\<close> says that the call can return \<open>v\<close>.
\<close>

definition slider :: "real \<Rightarrow> real \<Rightarrow> real \<Rightarrow> real \<Rightarrow> real \<Rightarrow> bool" where
  "slider min_value max_value initial step v = (min_value \<le> v \<and> v \<le> max_value)"

text \<open>Lines 57 and 58: the second slider starts at the value of the first.\<close>

definition sidebar_magnitudes :: "real \<Rightarrow> real \<Rightarrow> bool" where
  "sidebar_magnitudes min_mag max_mag =
     (slider 0.0 10.0 2.5 0.1 min_mag \<and> slider min_mag 10.0 10.0 0.1 max_mag)"

subsection \<open>The inclusion rule of the specification\<close>

text \<open>
  The rule as the specification words it, for comparison with \<open>filtered_df\<close>: a row is
  included when its magnitude is present and lies between the magnitude bounds, and its
  time of occurrence is present and lies between the time bounds, all bounds inclusive.
\<close>

definition spec_included :: "real \<Rightarrow> real \<Rightarrow> int \<Rightarrow> int \<Rightarrow> row \<Rightarrow> bool" where
  "spec_included min_magnitude max_magnitude start_time end_time r =
     ((case mag_value (mag r) of
         None \<Rightarrow> False
       | Some m \<Rightarrow> min_magnitude \<le> m \<and> m \<le> max_magnitude) \<and>
      (case time r of
         None \<Rightarrow> False
       | Some t \<Rightarrow> start_time \<le> t \<and> t \<le> end_time))"

subsection \<open>Sample feeds and rows\<close>

definition feature_of :: "json \<Rightarrow> json" where
  "feature_of m =
     JObj [(''properties'',
              JObj [(''place'', JStr ''Alaska''), (''mag'', m), (''time'', JInt 1700000000000)]),
           (''geometry'',
              JObj [(''coordinates'', JArr [JFloat (-150), JFloat 61, JFloat 10])])]"

definition feature_no_geometry :: json where
  "feature_no_geometry =
     JObj [(''properties'',
              JObj [(''place'', JStr ''Alaska''), (''mag'', JFloat 2.5),
                    (''time'', JInt 1700000000000)])]"

definition row_of :: "json \<Rightarrow> row" where
  "row_of m =
     \<lparr>place = JStr ''Alaska'', mag = m, time = Some 1700000000000000000,
      longitude = JFloat (-150), latitude = JFloat 61, depth = JFloat 10\<rparr>"

definition feed_response :: "nat \<Rightarrow> json list \<Rightarrow> response" where
  "feed_response code features =
     \<lparr>status_code = code, body_json = Some (JObj [(''features'', JArr features)])\<rparr>"

section \<open>Properties\<close>

subsection \<open>Auxiliary facts\<close>

lemma map_raising_Inr:
  "(\<And>x. x \<in> set xs \<Longrightarrow> f x = Inr (g x)) \<Longrightarrow> map_raising f xs = Inr (map g xs)"
  by (induction xs) (simp_all add: and_then_def)

lemma map_raising_nth:
  "map_raising f xs = Inr ys \<Longrightarrow> i < length xs \<Longrightarrow> f (xs ! i) = Inr (ys ! i)"
proof (induction xs arbitrary: ys i)
  case Nil
  then show ?case by simp
next
  case (Cons x xs)
  from Cons.prems(1) obtain y ys' where y: "f x = Inr y"
    and ys': "map_raising f xs = Inr ys'" and ys: "ys = y # ys'"
    by (auto simp: and_then_def split: sum.splits)
  show ?case
  proof (cases i)
    case 0
    then show ?thesis by (simp add: y ys)
  next
    case (Suc j)
    then show ?thesis using Cons.IH [OF ys'] Cons.prems(2) by (simp add: ys)
  qed
qed

lemma map_raising_Inl: "x \<in> set xs \<Longrightarrow> f x = Inl e \<Longrightarrow> \<exists>e'. map_raising f xs = Inl e'"
  by (induction xs) (auto simp: and_then_def split: sum.splits)

lemma bool_index_map: "bool_index xs (map p xs) = filter p xs"
  by (induction xs) (simp_all add: bool_index_def)

lemma mask_and_map: "mask_and (map p xs) (map q xs) = map (\<lambda>x. p x \<and> q x) xs"
  by (induction xs) (simp_all add: mask_and_def)

lemma cell_ge_number:
  "number_or_null c \<Longrightarrow>
   cell_ge c b = Inr (case mag_value c of None \<Rightarrow> False | Some m \<Rightarrow> b \<le> m)"
  by (cases c) simp_all

lemma cell_le_number:
  "number_or_null c \<Longrightarrow>
   cell_le c b = Inr (case mag_value c of None \<Rightarrow> False | Some m \<Rightarrow> m \<le> b)"
  by (cases c) simp_all

lemma float_or_null_number: "float_or_null c \<Longrightarrow> number_or_null c"
  by (cases c) simp_all

text \<open>
  On a frame whose magnitudes are numbers or missing, the four masks and the boolean
  indexing amount to one pass that keeps the rows inside both ranges.
\<close>

lemma filtered_df_filter:
  assumes "\<forall>r \<in> set df. number_or_null (mag r)"
  shows "filtered_df df lo hi s e = Inr (filter (spec_included lo hi s e) df)"
proof -
  have ge: "map_raising (\<lambda>c. cell_ge c lo) (map mag df) =
      Inr (map (\<lambda>c. case mag_value c of None \<Rightarrow> False | Some m \<Rightarrow> lo \<le> m) (map mag df))"
    using assms by (intro map_raising_Inr) (auto simp: cell_ge_number)
  have le: "map_raising (\<lambda>c. cell_le c hi) (map mag df) =
      Inr (map (\<lambda>c. case mag_value c of None \<Rightarrow> False | Some m \<Rightarrow> m \<le> hi) (map mag df))"
    using assms by (intro map_raising_Inr) (auto simp: cell_le_number)
  have sel: "spec_included lo hi s e =
      (\<lambda>r. (case mag_value (mag r) of None \<Rightarrow> False | Some m \<Rightarrow> lo \<le> m) \<and>
           (case mag_value (mag r) of None \<Rightarrow> False | Some m \<Rightarrow> m \<le> hi) \<and>
           time_ge (time r) s \<and> time_le (time r) e)"
    by (auto simp: fun_eq_iff spec_included_def time_ge_def time_le_def split: option.splits)
  show ?thesis
    unfolding filtered_df_def ge le
    by (simp add: and_then_def comp_def mask_and_map bool_index_map sel)
qed

text \<open>
  With an accepted status, a decoded body and a list under \<^verbatim>\<open>features\<close>, the body of the
  \<^verbatim>\<open>try\<close> is the comprehension over the features.
\<close>

lemma load_data_try_features:
  assumes "\<not> (400 \<le> status_code r \<and> status_code r < 600)"
    and "body_json r = Some data"
    and "getitem_key data ''features'' = Inr (JArr features)"
  shows "load_data_try conv (Responded r) = map_raising (record_of conv) features"
  using assms by (auto simp: load_data_try_def raise_for_status_def and_then_def records_of_def)

text \<open>The sample features under the feed conversion.\<close>

lemma record_of_feature_of:
  "record_of to_datetime_feed (feature_of m) = Inr (row_of m)"
  by (simp add: record_of_def feature_of_def row_of_def and_then_def)

lemma record_of_feature_no_geometry:
  "record_of to_datetime_feed feature_no_geometry = Inl KeyError"
  by (simp add: record_of_def feature_no_geometry_def and_then_def)

text \<open>The selection on the sample frames, computed from the definition.\<close>

lemma sample_selection_a:
  "filtered_df [row_of (JFloat 3), row_of JNull, row_of (JFloat 1), row_of (JFloat 4)] 2.5 10
       1600000000000000000 1800000000000000000 = Inr [row_of (JFloat 3), row_of (JFloat 4)]"
  by (simp add: filtered_df_def row_of_def and_then_def mask_and_def bool_index_def
      time_ge_def time_le_def)

lemma sample_selection_b:
  "filtered_df [row_of (JFloat 3), row_of JNull, row_of (JFloat 1), row_of (JFloat 4)] 0 10
       1500000000000000000 1900000000000000000 =
     Inr [row_of (JFloat 3), row_of (JFloat 1), row_of (JFloat 4)]"
  by (simp add: filtered_df_def row_of_def and_then_def mask_and_def bool_index_def
      time_ge_def time_le_def)

lemma sample_floats:
  "\<forall>r \<in> set [row_of (JFloat 3), row_of JNull, row_of (JFloat 1), row_of (JFloat 4)].
     float_or_null (mag r)"
  by (simp add: row_of_def)

lemma sample_numbers:
  "\<forall>r \<in> set [row_of (JFloat 3), row_of JNull, row_of (JFloat 1), row_of (JFloat 4)].
     number_or_null (mag r)"
  by (simp add: row_of_def)

subsection \<open>The row selection\<close>

text \<open>
  Claim C2. On every frame whose magnitudes are floating-point values or missing, and for
  all four bounds, the selection returns exactly the rows that the inclusion rule of the
  specification admits, in place: a row is in the result if and only if it is a row of the
  frame, its magnitude is present with \<open>min_mag \<le> magnitude \<le> max_mag\<close>, and its time is
  present with \<open>start \<le> time \<le> end\<close>, every bound inclusive. A row with a missing
  magnitude is therefore never in the result.
\<close>

theorem filtered_df_included_iff:
  assumes "\<forall>r \<in> set df. float_or_null (mag r)"
  shows "\<exists>out. filtered_df df min_mag max_mag start_datetime end_datetime = Inr out \<and>
           out = filter (spec_included min_mag max_mag start_datetime end_datetime) df \<and>
           (\<forall>r. r \<in> set out \<longleftrightarrow>
                 r \<in> set df \<and>
                 (\<exists>m. mag_value (mag r) = Some m \<and> min_mag \<le> m \<and> m \<le> max_mag) \<and>
                 (\<exists>t. time r = Some t \<and> start_datetime \<le> t \<and> t \<le> end_datetime))"
proof -
  have "\<forall>r \<in> set df. number_or_null (mag r)"
    using assms by (simp add: float_or_null_number)
  then have "filtered_df df min_mag max_mag start_datetime end_datetime =
          Inr (filter (spec_included min_mag max_mag start_datetime end_datetime) df)"
    by (rule filtered_df_filter)
  moreover have
    "r \<in> set (filter (spec_included min_mag max_mag start_datetime end_datetime) df) \<longleftrightarrow>
       r \<in> set df \<and>
       (\<exists>m. mag_value (mag r) = Some m \<and> min_mag \<le> m \<and> m \<le> max_mag) \<and>
       (\<exists>t. time r = Some t \<and> start_datetime \<le> t \<and> t \<le> end_datetime)" for r
    by (auto simp: spec_included_def split: option.splits)
  ultimately show ?thesis by simp
qed

text \<open>
  The scenarios of the specification: with bounds 2.5 and 5.0 the row of magnitude 2.5 is
  kept and the row of magnitude 2.49999 is not; with bounds 0 and 10 the row without a
  magnitude is still left out.
\<close>

theorem filtered_df_included_iff_witness:
  "filtered_df [row_of (JFloat 2.5), row_of (JFloat 2.49999), row_of JNull] 2.5 5.0
       1600000000000000000 1800000000000000000 = Inr [row_of (JFloat 2.5)] \<and>
   filtered_df [row_of (JFloat 2.5), row_of (JFloat 2.49999), row_of JNull] 0 10
       1600000000000000000 1800000000000000000 =
     Inr [row_of (JFloat 2.5), row_of (JFloat 2.49999)]"
proof -
  have h: "\<forall>r \<in> set [row_of (JFloat 2.5), row_of (JFloat 2.49999), row_of JNull].
             float_or_null (mag r)"
    by (simp add: row_of_def)
  show ?thesis
    using filtered_df_included_iff [OF h, where min_mag = "2.5" and max_mag = "5.0"
        and start_datetime = 1600000000000000000 and end_datetime = 1800000000000000000]
      filtered_df_included_iff [OF h, where min_mag = 0 and max_mag = 10
        and start_datetime = 1600000000000000000 and end_datetime = 1800000000000000000]
    by (simp add: spec_included_def row_of_def)
qed

text \<open>
  Claim C4. On every frame whose magnitudes are numbers or missing, bounds given in the
  wrong order (the end before the start, or the maximum magnitude below the minimum) are
  taken as they are: the selection raises nothing and returns the empty frame.
\<close>

theorem filtered_df_inverted_bounds:
  assumes "\<forall>r \<in> set df. number_or_null (mag r)"
    and "end_datetime < start_datetime \<or> max_mag < min_mag"
  shows "filtered_df df min_mag max_mag start_datetime end_datetime = Inr []"
proof -
  have "\<not> spec_included min_mag max_mag start_datetime end_datetime r" for r
    using assms(2) by (auto simp: spec_included_def split: option.splits)
  then show ?thesis
    using filtered_df_filter [OF assms(1)] by simp
qed

theorem filtered_df_inverted_bounds_witness:
  "filtered_df [row_of (JFloat 2.5), row_of (JInt 4), row_of JNull] 5 2
       1600000000000000000 1800000000000000000 = Inr [] \<and>
   filtered_df [row_of (JFloat 2.5), row_of (JInt 4), row_of JNull] 0 10
       1800000000000000000 1600000000000000000 = Inr []"
proof -
  have h: "\<forall>r \<in> set [row_of (JFloat 2.5), row_of (JInt 4), row_of JNull].
             number_or_null (mag r)"
    by (simp add: row_of_def)
  show ?thesis
    using filtered_df_inverted_bounds [OF h, where min_mag = 5 and max_mag = 2
        and start_datetime = 1600000000000000000 and end_datetime = 1800000000000000000]
      filtered_df_inverted_bounds [OF h, where min_mag = 0 and max_mag = 10
        and start_datetime = 1800000000000000000 and end_datetime = 1600000000000000000]
    by simp
qed

text \<open>
  Claim C5. On every frame whose magnitudes are floating-point values or missing, the
  result of the selection is a subsequence of the frame (the rows kept stay in their
  order), it is no longer than the frame, and when no row satisfies the bounds it is the
  empty frame, not an exception.
\<close>

theorem filtered_df_subsequence:
  assumes "\<forall>r \<in> set df. float_or_null (mag r)"
  shows "\<exists>out. filtered_df df min_mag max_mag start_datetime end_datetime = Inr out \<and>
           subseq out df \<and> length out \<le> length df \<and>
           ((\<forall>r \<in> set df. \<not> spec_included min_mag max_mag start_datetime end_datetime r)
              \<longrightarrow> out = [])"
proof -
  have "\<forall>r \<in> set df. number_or_null (mag r)"
    using assms by (simp add: float_or_null_number)
  then have "filtered_df df min_mag max_mag start_datetime end_datetime =
          Inr (filter (spec_included min_mag max_mag start_datetime end_datetime) df)"
    by (rule filtered_df_filter)
  then show ?thesis
    by (simp add: filter_empty_conv)
qed

theorem filtered_df_subsequence_witness:
  "filtered_df [row_of (JFloat 3), row_of JNull, row_of (JFloat 1), row_of (JFloat 4)] 2.5 10
       1600000000000000000 1800000000000000000 = Inr [row_of (JFloat 3), row_of (JFloat 4)] \<and>
   subseq [row_of (JFloat 3), row_of (JFloat 4)]
       [row_of (JFloat 3), row_of JNull, row_of (JFloat 1), row_of (JFloat 4)] \<and>
   filtered_df [row_of (JFloat 3), row_of JNull, row_of (JFloat 1), row_of (JFloat 4)] 6 10
       1600000000000000000 1800000000000000000 = Inr []"
  using
    filtered_df_subsequence [OF sample_floats, where min_mag = "2.5" and max_mag = 10
      and start_datetime = 1600000000000000000 and end_datetime = 1800000000000000000]
    filtered_df_subsequence [OF sample_floats, where min_mag = 6 and max_mag = 10
      and start_datetime = 1600000000000000000 and end_datetime = 1800000000000000000]
  unfolding sample_selection_a by (simp add: spec_included_def row_of_def)

text \<open>
  Claim C6. The selection is idempotent: on every frame whose magnitudes are numbers or
  missing, selecting again from the result with the same bounds returns the result
  unchanged.
\<close>

theorem filtered_df_idempotent:
  assumes "\<forall>r \<in> set df. number_or_null (mag r)"
  shows "\<exists>out. filtered_df df min_mag max_mag start_datetime end_datetime = Inr out \<and>
           filtered_df out min_mag max_mag start_datetime end_datetime = Inr out"
proof -
  let ?out = "filter (spec_included min_mag max_mag start_datetime end_datetime) df"
  have "\<forall>r \<in> set ?out. number_or_null (mag r)"
    using assms by simp
  then have "filtered_df ?out min_mag max_mag start_datetime end_datetime = Inr ?out"
    by (simp add: filtered_df_filter)
  then show ?thesis
    using filtered_df_filter [OF assms] by simp
qed

theorem filtered_df_idempotent_witness:
  "filtered_df [row_of (JFloat 3), row_of JNull, row_of (JFloat 1), row_of (JFloat 4)] 2.5 10
       1600000000000000000 1800000000000000000 = Inr [row_of (JFloat 3), row_of (JFloat 4)] \<and>
   filtered_df [row_of (JFloat 3), row_of (JFloat 4)] 2.5 10
       1600000000000000000 1800000000000000000 = Inr [row_of (JFloat 3), row_of (JFloat 4)]"
  using
    filtered_df_idempotent [OF sample_numbers, where min_mag = "2.5" and max_mag = 10
      and start_datetime = 1600000000000000000 and end_datetime = 1800000000000000000]
  unfolding sample_selection_a by simp

text \<open>
  Claim C7. The selection is monotone in its bounds: on every frame whose magnitudes are
  numbers or missing, lowering the minimum magnitude, raising the maximum magnitude,
  moving the start earlier or moving the end later (any of them, or several at once) never
  makes the result shorter.
\<close>

theorem filtered_df_monotone:
  assumes "\<forall>r \<in> set df. number_or_null (mag r)"
    and "min_mag' \<le> min_mag" and "max_mag \<le> max_mag'"
    and "start_datetime' \<le> start_datetime" and "end_datetime \<le> end_datetime'"
  shows "\<exists>out out'. filtered_df df min_mag max_mag start_datetime end_datetime = Inr out \<and>
           filtered_df df min_mag' max_mag' start_datetime' end_datetime' = Inr out' \<and>
           length out \<le> length out'"
proof -
  have imp: "spec_included min_mag max_mag start_datetime end_datetime r \<Longrightarrow>
             spec_included min_mag' max_mag' start_datetime' end_datetime' r" for r
    using assms(2-5) by (auto simp: spec_included_def split: option.splits)
  have "length (filter (spec_included min_mag max_mag start_datetime end_datetime) df)
          \<le> length (filter (spec_included min_mag' max_mag' start_datetime' end_datetime') df)"
    by (induction df) (auto dest: imp)
  then show ?thesis
    using filtered_df_filter [OF assms(1)] by simp
qed

theorem filtered_df_monotone_witness:
  "filtered_df [row_of (JFloat 3), row_of JNull, row_of (JFloat 1), row_of (JFloat 4)] 2.5 10
       1600000000000000000 1800000000000000000 = Inr [row_of (JFloat 3), row_of (JFloat 4)] \<and>
   filtered_df [row_of (JFloat 3), row_of JNull, row_of (JFloat 1), row_of (JFloat 4)] 0 10
       1500000000000000000 1900000000000000000 =
     Inr [row_of (JFloat 3), row_of (JFloat 1), row_of (JFloat 4)] \<and>
   length [row_of (JFloat 3), row_of (JFloat 4)] \<le>
     length [row_of (JFloat 3), row_of (JFloat 1), row_of (JFloat 4)]"
  using
    filtered_df_monotone [OF sample_numbers, where min_mag = "2.5" and max_mag = 10
      and start_datetime = 1600000000000000000 and end_datetime = 1800000000000000000
      and min_mag' = 0 and max_mag' = 10
      and start_datetime' = 1500000000000000000 and end_datetime' = 1900000000000000000]
  unfolding sample_selection_a sample_selection_b by simp

subsection \<open>The feed loader\<close>

text \<open>
  Claim C1, as the code has it. For a response with an accepted status whose body decodes
  to an object with a list of features, the loader is all or nothing. When every feature
  converts, \<^verbatim>\<open>load_data\<close> shows no advisory and returns one row per feature, in feed
  order, so the length of the frame is the number of features. When a single feature does
  not convert (it lacks its geometry, its timestamp is not convertible, or any other
  access raises), nothing is skipped: the exception leaves the comprehension, the advisory
  is shown and the empty frame is returned.
\<close>

theorem load_data_all_or_nothing:
  assumes "\<not> (400 \<le> status_code r \<and> status_code r < 600)"
    and "body_json r = Some data"
    and "getitem_key data ''features'' = Inr (JArr features)"
  shows "((\<forall>f \<in> set features. \<exists>rw. record_of to_datetime f = Inr rw) \<longrightarrow>
            (\<exists>df. load_data to_datetime (Responded r) = (None, df) \<and>
                  length df = length features \<and>
                  (\<forall>i < length features. record_of to_datetime (features ! i) = Inr (df ! i)))) \<and>
         ((\<exists>f \<in> set features. \<exists>e. record_of to_datetime f = Inl e) \<longrightarrow>
            (\<exists>e. load_data to_datetime (Responded r) = (Some e, [])))"
proof (intro conjI impI)
  assume ok: "\<forall>f \<in> set features. \<exists>rw. record_of to_datetime f = Inr rw"
  let ?df = "map (\<lambda>f. projr (record_of to_datetime f)) features"
  have "record_of to_datetime f = Inr (projr (record_of to_datetime f))"
    if "f \<in> set features" for f
  proof -
    from ok that obtain rw where "record_of to_datetime f = Inr rw"
      by blast
    then show ?thesis by simp
  qed
  then have m: "map_raising (record_of to_datetime) features = Inr ?df"
    by (rule map_raising_Inr)
  have l: "load_data to_datetime (Responded r) = (None, ?df)"
    unfolding load_data_def load_data_try_features [OF assms] m by simp
  have n: "record_of to_datetime (features ! i) = Inr (?df ! i)" if "i < length features" for i
    using map_raising_nth [OF m that] .
  show "\<exists>df. load_data to_datetime (Responded r) = (None, df) \<and>
      length df = length features \<and>
      (\<forall>i < length features. record_of to_datetime (features ! i) = Inr (df ! i))"
  proof (intro exI [of _ ?df] conjI allI impI)
    show "load_data to_datetime (Responded r) = (None, ?df)" by (rule l)
    show "length ?df = length features" by simp
    show "record_of to_datetime (features ! i) = Inr (?df ! i)" if "i < length features" for i
      using that by (rule n)
  qed
next
  assume "\<exists>f \<in> set features. \<exists>e. record_of to_datetime f = Inl e"
  then obtain f e where "f \<in> set features" and "record_of to_datetime f = Inl e"
    by blast
  from map_raising_Inl [where f = "record_of to_datetime", OF this]
  obtain e' where "map_raising (record_of to_datetime) features = Inl e'"
    by blast
  then show "\<exists>e. load_data to_datetime (Responded r) = (Some e, [])"
    unfolding load_data_def load_data_try_features [OF assms] by simp
qed

text \<open>
  A feed of two well-formed features loads as two rows; a feed of one well-formed feature
  and one without geometry loads as no rows, with the advisory.
\<close>

theorem load_data_all_or_nothing_witness:
  "fst (load_data to_datetime_feed
      (Responded (feed_response 200 [feature_of (JFloat 2.5), feature_of JNull]))) = None \<and>
   length (snd (load_data to_datetime_feed
      (Responded (feed_response 200 [feature_of (JFloat 2.5), feature_of JNull])))) = 2 \<and>
   fst (load_data to_datetime_feed
      (Responded (feed_response 200 [feature_of (JFloat 2.5), feature_no_geometry]))) \<noteq> None \<and>
   snd (load_data to_datetime_feed
      (Responded (feed_response 200 [feature_of (JFloat 2.5), feature_no_geometry]))) = []"
proof -
  have s: "\<not> (400 \<le> status_code (feed_response 200 fs) \<and> status_code (feed_response 200 fs) < 600)"
    for fs
    by (simp add: feed_response_def)
  have b: "body_json (feed_response 200 fs) = Some (JObj [(''features'', JArr fs)])" for fs
    by (simp add: feed_response_def)
  have g: "getitem_key (JObj [(''features'', JArr fs)]) ''features'' = Inr (JArr fs)" for fs
    by simp
  let ?good = "[feature_of (JFloat 2.5), feature_of JNull]"
  let ?bad = "[feature_of (JFloat 2.5), feature_no_geometry]"
  note good = load_data_all_or_nothing [OF s [of ?good] b [of ?good] g [of ?good],
      where to_datetime = to_datetime_feed]
  note bad = load_data_all_or_nothing [OF s [of ?bad] b [of ?bad] g [of ?bad],
      where to_datetime = to_datetime_feed]
  have "\<forall>f \<in> set [feature_of (JFloat 2.5), feature_of JNull].
          \<exists>rw. record_of to_datetime_feed f = Inr rw"
    by (simp add: record_of_feature_of)
  with good obtain df where "load_data to_datetime_feed
      (Responded (feed_response 200 [feature_of (JFloat 2.5), feature_of JNull])) = (None, df)"
    and "length df = length [feature_of (JFloat 2.5), feature_of JNull]"
    by blast
  then have 1: "fst (load_data to_datetime_feed
      (Responded (feed_response 200 [feature_of (JFloat 2.5), feature_of JNull]))) = None \<and>
   length (snd (load_data to_datetime_feed
      (Responded (feed_response 200 [feature_of (JFloat 2.5), feature_of JNull])))) = 2"
    by simp
  have "\<exists>f \<in> set [feature_of (JFloat 2.5), feature_no_geometry].
          \<exists>e. record_of to_datetime_feed f = Inl e"
    by (simp add: record_of_feature_no_geometry)
  with bad obtain e where "load_data to_datetime_feed
      (Responded (feed_response 200 [feature_of (JFloat 2.5), feature_no_geometry])) = (Some e, [])"
    by blast
  then have 2: "fst (load_data to_datetime_feed
      (Responded (feed_response 200 [feature_of (JFloat 2.5), feature_no_geometry]))) \<noteq> None \<and>
   snd (load_data to_datetime_feed
      (Responded (feed_response 200 [feature_of (JFloat 2.5), feature_no_geometry]))) = []"
    by simp
  from 1 2 show ?thesis by simp
qed

text \<open>
  The claim as the specification states it fails on that second feed: one of its two
  features converts and the other one is missing its geometry, so skipping the bad record
  would leave one row, but the loader returns the empty frame and reports the
  \<^verbatim>\<open>KeyError\<close>.
\<close>

theorem load_data_skip_counterexample:
  "record_of to_datetime_feed (feature_of (JFloat 2.5)) = Inr (row_of (JFloat 2.5)) \<and>
   record_of to_datetime_feed feature_no_geometry = Inl KeyError \<and>
   load_data to_datetime_feed
      (Responded (feed_response 200 [feature_of (JFloat 2.5), feature_no_geometry])) =
     (Some KeyError, []) \<and>
   length (snd (load_data to_datetime_feed
      (Responded (feed_response 200 [feature_of (JFloat 2.5), feature_no_geometry])))) \<noteq> 2 - 1"
  by (simp add: load_data_def load_data_try_def feed_response_def raise_for_status_def
      and_then_def records_of_def record_of_feature_of record_of_feature_no_geometry)

text \<open>
  Claim C3, as the code has it. When \<^verbatim>\<open>requests.get\<close> raises (a network error, a
  timeout) or the response carries a client or server error status, 400 to 599 (such as
  500), the loader shows the advisory and returns the empty frame. A response with any
  other status is handled exactly as one with status 200. No exception leaves
  \<^verbatim>\<open>load_data\<close>: for every outcome of the request it returns either a frame without
  advisory, or the advisory with the empty frame.
\<close>

theorem load_data_feed_unavailable:
  "load_data to_datetime (RequestRaised e) = (Some e, []) \<and>
   (400 \<le> status_code r \<and> status_code r < 600 \<longrightarrow>
      load_data to_datetime (Responded r) = (Some HTTPError, [])) \<and>
   (\<not> (400 \<le> status_code r \<and> status_code r < 600) \<longrightarrow>
      load_data to_datetime (Responded r) =
        load_data to_datetime (Responded (r\<lparr>status_code := 200\<rparr>))) \<and>
   (\<exists>df. load_data to_datetime outcome = (None, df) \<or>
      (\<exists>e'. load_data to_datetime outcome = (Some e', [])))"
  by (auto simp: load_data_def load_data_try_def raise_for_status_def and_then_def
      split: sum.splits)

theorem load_data_feed_unavailable_witness:
  "load_data to_datetime_feed (RequestRaised ConnectionError) = (Some ConnectionError, []) \<and>
   load_data to_datetime_feed (RequestRaised Timeout) = (Some Timeout, []) \<and>
   load_data to_datetime_feed (Responded (feed_response 500 [feature_of (JFloat 2.5)])) =
     (Some HTTPError, [])"
  using load_data_feed_unavailable [where to_datetime = to_datetime_feed and e = ConnectionError
      and r = "feed_response 500 [feature_of (JFloat 2.5)]"]
    load_data_feed_unavailable [where to_datetime = to_datetime_feed and e = Timeout
      and r = "feed_response 500 [feature_of (JFloat 2.5)]"]
  by (simp add: feed_response_def)

text \<open>
  The claim as the specification states it, for every status that is not a success,
  fails for the statuses outside 200 to 299 that \<^verbatim>\<open>raise_for_status\<close> lets through: a
  response with status 300 (or 399) and a feed body is loaded like any other, rows and no
  advisory.
\<close>

theorem load_data_status_300_counterexample:
  "load_data to_datetime_feed (Responded (feed_response 300 [feature_of (JFloat 2.5)])) =
     (None, [row_of (JFloat 2.5)]) \<and>
   load_data to_datetime_feed (Responded (feed_response 399 [feature_of (JFloat 2.5)])) =
     (None, [row_of (JFloat 2.5)])"
  by (simp add: load_data_def load_data_try_def feed_response_def raise_for_status_def
      and_then_def records_of_def record_of_feature_of)

subsection \<open>The magnitude sliders\<close>

text \<open>
  Claim C10. The magnitude bounds that the two sliders can deliver satisfy
  \<open>0 \<le> min_mag \<le> max_mag \<le> 10\<close>, so they are never inverted. With such bounds, on a
  frame whose magnitudes are numbers or missing, every row the selection keeps has a
  magnitude between 0 and 10; a row of negative magnitude is never kept. The loader, for
  its part, copies the magnitude of a feature as it is, of either sign.
\<close>

theorem sidebar_magnitudes_bounds:
  assumes "sidebar_magnitudes min_mag max_mag"
  shows "0 \<le> min_mag \<and> min_mag \<le> max_mag \<and> max_mag \<le> 10 \<and> \<not> max_mag < min_mag \<and>
         ((\<forall>r \<in> set df. number_or_null (mag r)) \<longrightarrow>
            (\<exists>out. filtered_df df min_mag max_mag start_datetime end_datetime = Inr out \<and>
                  (\<forall>r \<in> set out. \<forall>m. mag_value (mag r) = Some m \<longrightarrow> 0 \<le> m \<and> m \<le> 10))) \<and>
         (record_of to_datetime feature = Inr rw \<longrightarrow>
            and_then (getitem_key feature ''properties'') (\<lambda>p. getitem_key p ''mag'') = Inr (mag rw))"
proof -
  have b: "0 \<le> min_mag" "min_mag \<le> max_mag" "max_mag \<le> 10"
    using assms by (simp_all add: sidebar_magnitudes_def slider_def)
  have sel: "\<forall>r \<in> set (filter (spec_included min_mag max_mag start_datetime end_datetime) df).
      \<forall>m. mag_value (mag r) = Some m \<longrightarrow> 0 \<le> m \<and> m \<le> 10"
    using b by (auto simp: spec_included_def split: option.splits)
  have c: "(\<forall>r \<in> set df. number_or_null (mag r)) \<longrightarrow>
            (\<exists>out. filtered_df df min_mag max_mag start_datetime end_datetime = Inr out \<and>
                  (\<forall>r \<in> set out. \<forall>m. mag_value (mag r) = Some m \<longrightarrow> 0 \<le> m \<and> m \<le> 10))"
    using sel by (simp add: filtered_df_filter)
  have d: "record_of to_datetime feature = Inr rw \<longrightarrow>
            and_then (getitem_key feature ''properties'') (\<lambda>p. getitem_key p ''mag'') = Inr (mag rw)"
    by (auto simp: record_of_def and_then_def split: sum.splits)
  show ?thesis using b c d by simp
qed

text \<open>
  A feed with an event of magnitude \<open>-0.5\<close> loads with that event, and the selection
  with the widest bounds the sliders allow leaves it out.
\<close>

theorem sidebar_magnitudes_bounds_witness:
  "sidebar_magnitudes 0 10 \<and>
   load_data to_datetime_feed
      (Responded (feed_response 200 [feature_of (JFloat (- 0.5)), feature_of (JFloat 2.5)])) =
     (None, [row_of (JFloat (- 0.5)), row_of (JFloat 2.5)]) \<and>
   filtered_df [row_of (JFloat (- 0.5)), row_of (JFloat 2.5)] 0 10
      1600000000000000000 1800000000000000000 = Inr [row_of (JFloat 2.5)]"
proof -
  have s: "sidebar_magnitudes 0 10"
    by (simp add: sidebar_magnitudes_def slider_def)
  have l: "load_data to_datetime_feed
      (Responded (feed_response 200 [feature_of (JFloat (- 0.5)), feature_of (JFloat 2.5)])) =
     (None, [row_of (JFloat (- 0.5)), row_of (JFloat 2.5)])"
    by (simp add: load_data_def load_data_try_def feed_response_def raise_for_status_def
      and_then_def records_of_def record_of_feature_of)
  have f: "filtered_df [row_of (JFloat (- 0.5)), row_of (JFloat 2.5)] 0 10
      1600000000000000000 1800000000000000000 = Inr [row_of (JFloat 2.5)]"
    by (simp add: filtered_df_def row_of_def and_then_def mask_and_def bool_index_def
      time_ge_def time_le_def)
  show ?thesis
    using sidebar_magnitudes_bounds [OF s] s l f by simp
qed

end
